theory Spec2Isabelle
  imports Complex_Main
begin

section \<open>The provider's interface as the script uses it\<close>

text \<open>
  The script \<^verbatim>\<open>exampleMODIS.js\<close> runs against a remote raster service. Every call it makes
  (\<^verbatim>\<open>filterDate\<close>, \<^verbatim>\<open>mean\<close>, \<^verbatim>\<open>reproject\<close>, ...) builds a request object; nothing is computed
  on the client. The objects are modelled as terms, one constructor per method the script
  calls, and the script's functions as functions that build such terms. What the service
  computes for a term is given afterwards by an evaluator over a provider (catalogue,
  resampling and division being the provider's own).
\<close>

datatype error =
    IndexOutOfBounds int
  | InvalidDate string
  | UnknownUnit string
  | UnknownAsset string
  | BandNotFound string
  | BandCountMismatch
  | UnboundArgument

subsection \<open>Lists: \<^verbatim>\<open>ee.List.get\<close>\<close>

definition list_get :: "'a list \<Rightarrow> int \<Rightarrow> error + 'a" where
  \<comment> \<open>Position \<open>-k\<close> is the \<open>k\<close>-th element from the end.\<close>
  "list_get xs i =
     (if 0 \<le> i \<and> i < int (length xs) then Inr (xs ! nat i)
      else if i < 0 \<and> - i \<le> int (length xs) then Inr (xs ! (length xs - nat (- i)))
      else Inl (IndexOutOfBounds i))"

subsection \<open>Dates: \<^verbatim>\<open>ee.Date\<close>, an instant in milliseconds since 1970-01-01\<close>

datatype dexpr =
    Date string
  | Advance dexpr int string

definition digit :: "char \<Rightarrow> int option" where
  "digit c = (let n = (of_char c :: nat) in if 48 \<le> n \<and> n \<le> 57 then Some (int n - 48) else None)"

fun number :: "char list \<Rightarrow> int option" where
  "number [] = Some 0"
| "number (c # cs) =
     (case digit c of None \<Rightarrow> None
      | Some v \<Rightarrow> (case number cs of None \<Rightarrow> None | Some r \<Rightarrow> Some (v * 10 ^ length cs + r)))"

definition leap_year :: "int \<Rightarrow> bool" where
  "leap_year y = (y mod 4 = 0 \<and> (y mod 100 \<noteq> 0 \<or> y mod 400 = 0))"

definition days_in_month :: "int \<Rightarrow> int \<Rightarrow> int" where
  "days_in_month y m =
     (if m = 2 then (if leap_year y then 29 else 28)
      else if m = 4 \<or> m = 6 \<or> m = 9 \<or> m = 11 then 30 else 31)"

definition days_from_civil :: "int \<Rightarrow> int \<Rightarrow> int \<Rightarrow> int" where
  \<comment> \<open>Days since 1970-01-01 of a date of the proleptic Gregorian calendar.\<close>
  "days_from_civil y m d =
     (let y' = (if m \<le> 2 then y - 1 else y);
          era = y' div 400;
          yoe = y' - era * 400;
          doy = (153 * (if m > 2 then m - 3 else m + 9) + 2) div 5 + d - 1;
          doe = yoe * 365 + yoe div 4 - yoe div 100 + doy
      in era * 146097 + doe - 719468)"


definition ms_per_day :: int where
  "ms_per_day = 86400000"

fun parse_date :: "string \<Rightarrow> error + int" where
  "parse_date [y1, y2, y3, y4, s1, m1, m2, s2, d1, d2] =
     (case (number [y1, y2, y3, y4], number [m1, m2], number [d1, d2]) of
        (Some y, Some m, Some d) \<Rightarrow>
          (if s1 = CHR ''-'' \<and> s2 = CHR ''-'' \<and> 1 \<le> m \<and> m \<le> 12 \<and> 1 \<le> d \<and> d \<le> days_in_month y m
           then Inr (days_from_civil y m d * ms_per_day)
           else Inl (InvalidDate [y1, y2, y3, y4, s1, m1, m2, s2, d1, d2]))
      | _ \<Rightarrow> Inl (InvalidDate [y1, y2, y3, y4, s1, m1, m2, s2, d1, d2]))"
| "parse_date s = Inl (InvalidDate s)"

fun eval_date :: "dexpr \<Rightarrow> error + int" where
  "eval_date (Date s) = parse_date s"
| "eval_date (Advance d delta u) =
     (case eval_date d of
        Inl e \<Rightarrow> Inl e
      | Inr t \<Rightarrow> (if u = ''day'' then Inr (t + delta * ms_per_day) else Inl (UnknownUnit u)))"



subsection \<open>Images and image collections\<close>

datatype reducer = Mean | Sum

datatype binop = Multiply | Subtract | Divide | Add

datatype geometry = FeatureCollection string

datatype tag =
    Str string
  | DateFormat string

datatype image =
    ImageAsset string
  | Constant real
  | MapArg
  | Reduce reducer collection
  | Select image string
  | Rename image string
  | Binop binop image image
  | Clip image geometry
  | Reproject image string nat
  | SetProp image string tag
  | UpdateMask image image
and collection =
    ImageCollection string
  | FilterBounds collection geometry
  | FilterDate collection dexpr dexpr
  | SelectC collection string
  | MapC collection image
  | FromList "image list"

text \<open>
  \<^const>\<open>MapArg\<close> is the image a mapped function is applied to: \<^verbatim>\<open>c.map(function(img){...})\<close>
  is \<^term>\<open>MapC c body\<close> with \<^const>\<open>MapArg\<close> for \<^verbatim>\<open>img\<close> in the body. A number given where
  an image is expected (\<^verbatim>\<open>.multiply(0.02)\<close>) is the constant image \<^term>\<open>Constant 0.02\<close>.
  \<^term>\<open>DateFormat f\<close> is \<^verbatim>\<open>img.date().format(f)\<close> of the mapped image.
  \<^term>\<open>Reproject x crs s\<close> is \<^verbatim>\<open>x.reproject(crs, null, s)\<close>.
\<close>

section \<open>The script\<close>

definition ROI :: geometry where
  "ROI = FeatureCollection ''users/leobeckerdaluz/FIXED_shapes/mesoregionRS''"

definition SCALE_M_PX :: nat where
  "SCALE_M_PX = 250"

definition dates :: "string list" where
  "dates = [''2018-01-01'', ''2018-01-17'', ''2018-02-02'', ''2018-02-18'']"

text \<open>The definitions below take the list of dates as an argument; the script's own is \<^const>\<open>dates\<close>.\<close>

definition startDate :: "string list \<Rightarrow> error + dexpr" where
  "startDate ds = (case list_get ds 0 of Inl e \<Rightarrow> Inl e | Inr d \<Rightarrow> Inr (Date d))"

definition endDate :: "string list \<Rightarrow> error + dexpr" where
  "endDate ds = (case list_get ds (- 1) of Inl e \<Rightarrow> Inl e | Inr d \<Rightarrow> Inr (Advance (Date d) 1 ''day''))"

definition collectionNDVI :: "string list \<Rightarrow> error + collection" where
  "collectionNDVI ds =
     (case startDate ds of Inl e \<Rightarrow> Inl e | Inr s \<Rightarrow>
      (case endDate ds of Inl e \<Rightarrow> Inl e | Inr e \<Rightarrow>
        Inr (MapC
              (SelectC (FilterDate (FilterBounds (ImageCollection ''MODIS/061/MOD13Q1'') ROI) s e) ''NDVI'')
              (SetProp
                (Reproject
                  (Binop Multiply (Rename (Clip MapArg ROI) ''NDVI'') (Constant 0.0001))
                  ''EPSG:4326'' SCALE_M_PX)
                ''date'' (DateFormat ''yyyy-MM-dd'')))))"

definition collectionLST_image :: "string \<Rightarrow> image" where
  "collectionLST_image dateString =
     SetProp
       (Reproject
         (Clip
           (Binop Subtract
             (Binop Multiply
               (Rename
                 (Reduce Mean
                   (SelectC
                     (FilterDate
                       (FilterBounds (ImageCollection ''MODIS/061/MOD11A2'') ROI)
                       (Date dateString) (Advance (Date dateString) 16 ''day''))
                     ''LST_Day_1km''))
                 ''LST'')
               (Constant 0.02))
             (Constant 273.15))
           ROI)
         ''EPSG:4326'' SCALE_M_PX)
       ''date'' (Str dateString)"

definition collectionLST :: "string list \<Rightarrow> collection" where
  "collectionLST ds = FromList (map collectionLST_image ds)"

definition collectionSOL_image :: "string \<Rightarrow> image" where
  "collectionSOL_image dateString =
     SetProp
       (Reproject
         (Clip
           (Binop Divide
             (Rename
               (Reduce Sum
                 (SelectC
                   (FilterDate
                     (FilterBounds (ImageCollection ''ECMWF/ERA5_LAND/HOURLY'') ROI)
                     (Date dateString) (Advance (Date dateString) 16 ''day''))
                   ''surface_solar_radiation_downwards_hourly''))
               ''SOL'')
             (Constant 1000000))
           ROI)
         ''EPSG:4326'' SCALE_M_PX)
       ''date'' (Str dateString)"

definition collectionSOL :: "string list \<Rightarrow> collection" where
  "collectionSOL ds = FromList (map collectionSOL_image ds)"

definition imageSum16days :: "string \<Rightarrow> image" where
  "imageSum16days dateString =
     Reduce Sum
       (FilterBounds
         (FilterDate (ImageCollection ''MODIS/006/MOD16A2'')
           (Date dateString) (Advance (Date dateString) 16 ''day''))
         ROI)"

definition ET :: "string \<Rightarrow> image" where
  "ET dateString = Select (imageSum16days dateString) ''ET''"

definition PET :: "string \<Rightarrow> image" where
  "PET dateString = Select (imageSum16days dateString) ''PET''"

definition We :: "string \<Rightarrow> image" where
  "We dateString =
     Binop Add (Binop Multiply (Binop Divide (ET dateString) (PET dateString)) (Constant 0.5)) (Constant 0.5)"

definition collectionWe_image :: "string \<Rightarrow> image" where
  "collectionWe_image dateString =
     SetProp
       (Reproject (Clip (Rename (We dateString) ''We'') ROI) ''EPSG:4326'' SCALE_M_PX)
       ''data'' (Str dateString)"

definition collectionWe :: "string list \<Rightarrow> collection" where
  "collectionWe ds = FromList (map collectionWe_image ds)"

definition Topt :: real where
  "Topt = 24.85"

definition LUEmax :: real where
  "LUEmax = 0.926"

definition soybeanMask :: image where
  "soybeanMask = ImageAsset ''users/leobeckerdaluz/FIXED/soybeanMask_mesoregionRS''"

definition maskCollections :: "image \<Rightarrow> image" where
  "maskCollections img = UpdateMask img soybeanMask"

definition masked :: "collection \<Rightarrow> collection" where
  \<comment> \<open>\<^verbatim>\<open>collection.map(maskCollections)\<close>\<close>
  "masked c = MapC c (maskCollections MapArg)"

text \<open>
  The module \<^verbatim>\<open>computeNPP\<close> is required from another file; its batch function is a
  parameter of the call the script makes.
\<close>

definition collectionNPP ::
  "('s \<Rightarrow> 's \<Rightarrow> 's \<Rightarrow> 's \<Rightarrow> real \<Rightarrow> real \<Rightarrow> 'e + 'r) \<Rightarrow> 's \<Rightarrow> 's \<Rightarrow> 's \<Rightarrow> 's \<Rightarrow> 'e + 'r" where
  "collectionNPP computeNPP cNDVI cLST cSOL cWe = computeNPP cNDVI cLST cSOL cWe Topt LUEmax"

section \<open>What the provider computes\<close>

text \<open>
  A raster is a list of named bands; a band gives each pixel a value or no data
  (\<^const>\<open>None\<close>). Pixel values are exact reals. A collection has a band schema and its
  images, each with an acquisition time and a footprint. The catalogue, the resampling done
  by a reprojection and the result of a division are the provider's.
\<close>

type_synonym pixel = "int \<times> int"
type_synonym band = "pixel \<Rightarrow> real option"
type_synonym raster = "(string \<times> band) list"

record element =
  el_time :: int
  el_footprint :: "pixel list"
  el_bands :: raster

record cvalue =
  cv_schema :: "string list"
  cv_elems :: "element list"

record provider =
  collections :: "string \<Rightarrow> cvalue option"
  images :: "string \<Rightarrow> raster option"
  regions :: "string \<Rightarrow> pixel list option"
  resample :: "string \<Rightarrow> nat \<Rightarrow> band \<Rightarrow> band"
  pdivide :: "real \<Rightarrow> real \<Rightarrow> real option"

fun sequence :: "(error + 'a) list \<Rightarrow> error + 'a list" where
  "sequence [] = Inr []"
| "sequence (x # xs) =
     (case x of Inl e \<Rightarrow> Inl e
      | Inr v \<Rightarrow> (case sequence xs of Inl e \<Rightarrow> Inl e | Inr vs \<Rightarrow> Inr (v # vs)))"

definition region :: "provider \<Rightarrow> geometry \<Rightarrow> error + pixel list" where
  "region P g = (case g of FeatureCollection i \<Rightarrow>
     (case regions P i of None \<Rightarrow> Inl (UnknownAsset i) | Some r \<Rightarrow> Inr r))"

definition values_at :: "string \<Rightarrow> pixel \<Rightarrow> element list \<Rightarrow> real list" where
  \<comment> \<open>The valid values of band \<open>b\<close> at pixel \<open>p\<close> over the images of a collection.\<close>
  "values_at b p es =
     concat (map (\<lambda>e. case map_of (el_bands e) b of
                          None \<Rightarrow> []
                        | Some f \<Rightarrow> (case f p of None \<Rightarrow> [] | Some v \<Rightarrow> [v])) es)"

definition reduce_values :: "reducer \<Rightarrow> real list \<Rightarrow> real option" where
  "reduce_values r vs =
     (if vs = [] then None
      else (case r of Mean \<Rightarrow> Some (sum_list vs / real (length vs)) | Sum \<Rightarrow> Some (sum_list vs)))"

text \<open>
  Modelled from the spec: the provider's reduction of a collection (the raster service is
  not part of the script). Section 4.2: the reduction is well-defined also when no image
  contributes, and is then a no-data image. The result has the bands of the collection's
  schema; a pixel with no valid input has no data.
\<close>

definition reduce_cv :: "reducer \<Rightarrow> cvalue \<Rightarrow> raster" where
  "reduce_cv r cv = map (\<lambda>b. (b, \<lambda>p. reduce_values r (values_at b p (cv_elems cv)))) (cv_schema cv)"

definition select_band :: "string \<Rightarrow> raster \<Rightarrow> error + raster" where
  "select_band b r = (case map_of r b of None \<Rightarrow> Inl (BandNotFound b) | Some f \<Rightarrow> Inr [(b, f)])"

definition rename_band :: "string \<Rightarrow> raster \<Rightarrow> error + raster" where
  "rename_band n r = (case r of [(_, f)] \<Rightarrow> Inr [(n, f)] | _ \<Rightarrow> Inl BandCountMismatch)"

definition apply_binop :: "provider \<Rightarrow> binop \<Rightarrow> real \<Rightarrow> real \<Rightarrow> real option" where
  "apply_binop P op x y =
     (case op of Multiply \<Rightarrow> Some (x * y) | Subtract \<Rightarrow> Some (x - y)
      | Add \<Rightarrow> Some (x + y) | Divide \<Rightarrow> pdivide P x y)"

definition binop_band :: "provider \<Rightarrow> binop \<Rightarrow> band \<Rightarrow> band \<Rightarrow> band" where
  "binop_band P op f g =
     (\<lambda>p. case f p of None \<Rightarrow> None
          | Some x \<Rightarrow> (case g p of None \<Rightarrow> None | Some y \<Rightarrow> apply_binop P op x y))"

definition binop_raster :: "provider \<Rightarrow> binop \<Rightarrow> raster \<Rightarrow> raster \<Rightarrow> error + raster" where
  \<comment> \<open>A single-band operand is used against every band of the other one.\<close>
  "binop_raster P op r1 r2 =
     (case r2 of
        [(_, g)] \<Rightarrow> Inr (map (\<lambda>(n, f). (n, binop_band P op f g)) r1)
      | _ \<Rightarrow>
        (case r1 of
           [(_, f)] \<Rightarrow> Inr (map (\<lambda>(n, g). (n, binop_band P op f g)) r2)
         | _ \<Rightarrow>
           (if length r1 = length r2
            then Inr (map (\<lambda>((n, f), (_, g)). (n, binop_band P op f g)) (zip r1 r2))
            else Inl BandCountMismatch)))"

definition clip_band :: "pixel list \<Rightarrow> band \<Rightarrow> band" where
  "clip_band reg f = (\<lambda>p. if p \<in> set reg then f p else None)"

text \<open>
  Modelled from the spec: the provider's masking (the raster service is not part of the
  script). Section 4.3: pixels outside the mask's valid region become no data; a pixel
  stays valid where the mask is valid and not zero.
\<close>

definition mask_band :: "band \<Rightarrow> band \<Rightarrow> band" where
  "mask_band m f = (\<lambda>p. case m p of None \<Rightarrow> None | Some v \<Rightarrow> (if v \<noteq> 0 then f p else None))"

definition update_mask :: "raster \<Rightarrow> raster \<Rightarrow> error + raster" where
  "update_mask r mr =
     (case mr of
        [(_, m)] \<Rightarrow> Inr (map (\<lambda>(n, f). (n, mask_band m f)) r)
      | _ \<Rightarrow>
        (if length mr = length r
         then Inr (map (\<lambda>((n, f), (_, m)). (n, mask_band m f)) (zip r mr))
         else Inl BandCountMismatch))"

definition filter_bounds :: "pixel list \<Rightarrow> element list \<Rightarrow> element list" where
  "filter_bounds reg es = filter (\<lambda>e. \<exists>p \<in> set (el_footprint e). p \<in> set reg) es"

definition filter_date :: "int \<Rightarrow> int \<Rightarrow> element list \<Rightarrow> element list" where
  \<comment> \<open>The start is inclusive, the end exclusive.\<close>
  "filter_date t1 t2 es = filter (\<lambda>e. t1 \<le> el_time e \<and> el_time e < t2) es"

definition select_elems :: "string \<Rightarrow> element list \<Rightarrow> element list" where
  "select_elems b es = map (\<lambda>e. e\<lparr>el_bands := filter (\<lambda>(n, f). n = b) (el_bands e)\<rparr>) es"

definition schema_of :: "string list \<Rightarrow> raster list \<Rightarrow> string list" where
  "schema_of s rs = (case rs of [] \<Rightarrow> s | r # _ \<Rightarrow> map fst r)"

fun eval_img :: "provider \<Rightarrow> raster option \<Rightarrow> image \<Rightarrow> error + raster"
and eval_coll :: "provider \<Rightarrow> raster option \<Rightarrow> collection \<Rightarrow> error + cvalue" where
  "eval_img P a (ImageAsset i) = (case images P i of None \<Rightarrow> Inl (UnknownAsset i) | Some r \<Rightarrow> Inr r)"
| "eval_img P a (Constant c) = Inr [(''constant'', \<lambda>p. Some c)]"
| "eval_img P a MapArg = (case a of None \<Rightarrow> Inl UnboundArgument | Some r \<Rightarrow> Inr r)"
| "eval_img P a (Reduce r c) =
     (case eval_coll P a c of Inl e \<Rightarrow> Inl e | Inr cv \<Rightarrow> Inr (reduce_cv r cv))"
| "eval_img P a (Select x b) =
     (case eval_img P a x of Inl e \<Rightarrow> Inl e | Inr r \<Rightarrow> select_band b r)"
| "eval_img P a (Rename x n) =
     (case eval_img P a x of Inl e \<Rightarrow> Inl e | Inr r \<Rightarrow> rename_band n r)"
| "eval_img P a (Binop op x y) =
     (case eval_img P a x of Inl e \<Rightarrow> Inl e | Inr r1 \<Rightarrow>
      (case eval_img P a y of Inl e \<Rightarrow> Inl e | Inr r2 \<Rightarrow> binop_raster P op r1 r2))"
| "eval_img P a (Clip x g) =
     (case eval_img P a x of Inl e \<Rightarrow> Inl e | Inr r \<Rightarrow>
      (case region P g of Inl e \<Rightarrow> Inl e | Inr reg \<Rightarrow> Inr (map (\<lambda>(n, f). (n, clip_band reg f)) r)))"
| "eval_img P a (Reproject x crs s) =
     (case eval_img P a x of Inl e \<Rightarrow> Inl e | Inr r \<Rightarrow> Inr (map (\<lambda>(n, f). (n, resample P crs s f)) r))"
| "eval_img P a (SetProp x k v) = eval_img P a x"
| "eval_img P a (UpdateMask x m) =
     (case eval_img P a x of Inl e \<Rightarrow> Inl e | Inr r \<Rightarrow>
      (case eval_img P a m of Inl e \<Rightarrow> Inl e | Inr mr \<Rightarrow> update_mask r mr))"
| "eval_coll P a (ImageCollection i) =
     (case collections P i of None \<Rightarrow> Inl (UnknownAsset i) | Some cv \<Rightarrow> Inr cv)"
| "eval_coll P a (FilterBounds c g) =
     (case eval_coll P a c of Inl e \<Rightarrow> Inl e | Inr cv \<Rightarrow>
      (case region P g of Inl e \<Rightarrow> Inl e
       | Inr reg \<Rightarrow> Inr (cv\<lparr>cv_elems := filter_bounds reg (cv_elems cv)\<rparr>)))"
| "eval_coll P a (FilterDate c d1 d2) =
     (case eval_coll P a c of Inl e \<Rightarrow> Inl e | Inr cv \<Rightarrow>
      (case eval_date d1 of Inl e \<Rightarrow> Inl e | Inr t1 \<Rightarrow>
       (case eval_date d2 of Inl e \<Rightarrow> Inl e
        | Inr t2 \<Rightarrow> Inr (cv\<lparr>cv_elems := filter_date t1 t2 (cv_elems cv)\<rparr>))))"
| "eval_coll P a (SelectC c b) =
     (case eval_coll P a c of Inl e \<Rightarrow> Inl e | Inr cv \<Rightarrow>
      (if b \<in> set (cv_schema cv)
       then Inr \<lparr>cv_schema = [b], cv_elems = select_elems b (cv_elems cv)\<rparr>
       else Inl (BandNotFound b)))"
| "eval_coll P a (MapC c body) =
     (case eval_coll P a c of Inl e \<Rightarrow> Inl e | Inr cv \<Rightarrow>
      (case sequence (map (\<lambda>e. eval_img P (Some (el_bands e)) body) (cv_elems cv)) of
         Inl e \<Rightarrow> Inl e
       | Inr rs \<Rightarrow>
           Inr \<lparr>cv_schema = schema_of (cv_schema cv) rs,
                cv_elems = map (\<lambda>(e, r). e\<lparr>el_bands := r\<rparr>) (zip (cv_elems cv) rs)\<rparr>))"
| "eval_coll P a (FromList xs) =
     (case sequence (map (eval_img P a) xs) of
        Inl e \<Rightarrow> Inl e
      | Inr rs \<Rightarrow>
          Inr \<lparr>cv_schema = schema_of [] rs,
               cv_elems = map (\<lambda>r. \<lparr>el_time = 0, el_footprint = [], el_bands = r\<rparr>) rs\<rparr>)"

section \<open>Reading a request term\<close>

text \<open>The date ranges a term filters by, outermost first.\<close>

fun date_filters_img :: "image \<Rightarrow> (dexpr \<times> dexpr) list"
and date_filters_coll :: "collection \<Rightarrow> (dexpr \<times> dexpr) list" where
  "date_filters_img (ImageAsset i) = []"
| "date_filters_img (Constant c) = []"
| "date_filters_img MapArg = []"
| "date_filters_img (Reduce r c) = date_filters_coll c"
| "date_filters_img (Select x b) = date_filters_img x"
| "date_filters_img (Rename x n) = date_filters_img x"
| "date_filters_img (Binop op x y) = date_filters_img x @ date_filters_img y"
| "date_filters_img (Clip x g) = date_filters_img x"
| "date_filters_img (Reproject x crs s) = date_filters_img x"
| "date_filters_img (SetProp x k v) = date_filters_img x"
| "date_filters_img (UpdateMask x m) = date_filters_img x @ date_filters_img m"
| "date_filters_coll (ImageCollection i) = []"
| "date_filters_coll (FilterBounds c g) = date_filters_coll c"
| "date_filters_coll (FilterDate c d1 d2) = (d1, d2) # date_filters_coll c"
| "date_filters_coll (SelectC c b) = date_filters_coll c"
| "date_filters_coll (MapC c body) = date_filters_coll c @ date_filters_img body"
| "date_filters_coll (FromList xs) = concat (map date_filters_img xs)"



fun reductions_img :: "image \<Rightarrow> nat"
and reductions_coll :: "collection \<Rightarrow> nat" where
  "reductions_img (ImageAsset i) = 0"
| "reductions_img (Constant c) = 0"
| "reductions_img MapArg = 0"
| "reductions_img (Reduce r c) = Suc (reductions_coll c)"
| "reductions_img (Select x b) = reductions_img x"
| "reductions_img (Rename x n) = reductions_img x"
| "reductions_img (Binop op x y) = reductions_img x + reductions_img y"
| "reductions_img (Clip x g) = reductions_img x"
| "reductions_img (Reproject x crs s) = reductions_img x"
| "reductions_img (SetProp x k v) = reductions_img x"
| "reductions_img (UpdateMask x m) = reductions_img x + reductions_img m"
| "reductions_coll (ImageCollection i) = 0"
| "reductions_coll (FilterBounds c g) = reductions_coll c"
| "reductions_coll (FilterDate c d1 d2) = reductions_coll c"
| "reductions_coll (SelectC c b) = reductions_coll c"
| "reductions_coll (MapC c body) = reductions_coll c + reductions_img body"
| "reductions_coll (FromList xs) = sum_list (map reductions_img xs)"

text \<open>
  The properties a chain of calls has set on its image, the last call first. Selection,
  renaming, clipping, reprojection and masking keep the properties of their input.
\<close>

fun properties :: "image \<Rightarrow> (string \<times> tag) list" where
  "properties (SetProp x k v) = (k, v) # properties x"
| "properties (Select x b) = properties x"
| "properties (Rename x n) = properties x"
| "properties (Clip x g) = properties x"
| "properties (Reproject x crs s) = properties x"
| "properties (UpdateMask x m) = properties x"
| "properties x = []"

definition pixel_value :: "error + raster \<Rightarrow> string \<Rightarrow> pixel \<Rightarrow> real option" where
  \<comment> \<open>The value of a band of a result at a pixel; none when there is no result, band or data.\<close>
  "pixel_value res b p =
     (case res of Inl e \<Rightarrow> None
      | Inr r \<Rightarrow> (case map_of r b of None \<Rightarrow> None | Some f \<Rightarrow> f p))"

section \<open>A small provider to run the script on\<close>

definition day :: "int \<Rightarrow> int" where
  \<comment> \<open>Midnight of the \<open>n\<close>-th day after 2018-01-01.\<close>
  "day n = (17532 + n) * ms_per_day"

definition band_of :: "(pixel \<times> real) list \<Rightarrow> band" where
  "band_of kvs = map_of kvs"

definition demo_LST :: cvalue where
  "demo_LST =
     \<lparr>cv_schema = [''LST_Day_1km'', ''QC_Day''],
      cv_elems =
        [\<lparr>el_time = day 0, el_footprint = [(0, 0), (0, 1)],
          el_bands = [(''LST_Day_1km'', band_of [((0, 0), 290), ((0, 1), 280)]),
                      (''QC_Day'', band_of [((0, 0), 0), ((0, 1), 0)])]\<rparr>,
         \<lparr>el_time = day 8, el_footprint = [(0, 0), (0, 1)],
          el_bands = [(''LST_Day_1km'', band_of [((0, 0), 310)]),
                      (''QC_Day'', band_of [((0, 0), 0), ((0, 1), 2)])]\<rparr>,
         \<lparr>el_time = day 16, el_footprint = [(0, 0), (0, 1)],
          el_bands = [(''LST_Day_1km'', band_of [((0, 0), 500), ((0, 1), 500)]),
                      (''QC_Day'', band_of [((0, 0), 0), ((0, 1), 0)])]\<rparr>]\<rparr>"

definition demo_SOL :: cvalue where
  "demo_SOL =
     \<lparr>cv_schema = [''surface_solar_radiation_downwards_hourly''],
      cv_elems =
        [\<lparr>el_time = day 0, el_footprint = [(0, 0), (0, 1)],
          el_bands = [(''surface_solar_radiation_downwards_hourly'',
                       band_of [((0, 0), 2000000), ((0, 1), 1000000)])]\<rparr>,
         \<lparr>el_time = day 1, el_footprint = [(0, 0), (0, 1)],
          el_bands = [(''surface_solar_radiation_downwards_hourly'',
                       band_of [((0, 0), 3000000), ((0, 1), 1000000)])]\<rparr>]\<rparr>"

definition demo_MOD16 :: cvalue where
  "demo_MOD16 =
     \<lparr>cv_schema = [''ET'', ''PET''],
      cv_elems =
        [\<lparr>el_time = day 0, el_footprint = [(0, 0), (0, 1), (1, 1)],
          el_bands = [(''ET'', band_of [((0, 0), 3), ((0, 1), 0), ((1, 1), 2)]),
                      (''PET'', band_of [((0, 0), 3), ((0, 1), 5), ((1, 1), 0)])]\<rparr>,
         \<lparr>el_time = day 8, el_footprint = [(0, 0), (0, 1), (1, 1)],
          el_bands = [(''ET'', band_of [((0, 0), 4), ((0, 1), 0), ((1, 1), 2)]),
                      (''PET'', band_of [((0, 0), 4), ((0, 1), 5), ((1, 1), 0)])]\<rparr>]\<rparr>"

definition demo_collections :: "string \<Rightarrow> cvalue option" where
  "demo_collections i =
     (if i = ''MODIS/061/MOD11A2'' then Some demo_LST
      else if i = ''ECMWF/ERA5_LAND/HOURLY'' then Some demo_SOL
      else if i = ''MODIS/006/MOD16A2'' then Some demo_MOD16
      else None)"

definition demo_region :: "pixel list" where
  "demo_region = [(0, 0), (0, 1), (1, 1)]"

definition demo_mask :: raster where
  "demo_mask = [(''b1'', band_of [((0, 0), 1), ((0, 1), 0)])]"

definition demo_provider :: provider where
  "demo_provider =
     \<lparr>collections = demo_collections,
      images = (\<lambda>i. if i = ''users/leobeckerdaluz/FIXED/soybeanMask_mesoregionRS''
                     then Some demo_mask else None),
      regions = (\<lambda>i. if i = ''users/leobeckerdaluz/FIXED_shapes/mesoregionRS''
                      then Some demo_region else None),
      resample = (\<lambda>crs s f. f),
      pdivide = (\<lambda>x y. if y = 0 then Some 0 else Some (x / y))\<rparr>"

definition nodata_provider :: provider where
  \<comment> \<open>As \<^const>\<open>demo_provider\<close>, with a division that gives no data for a zero divisor.\<close>
  "nodata_provider = demo_provider\<lparr>pdivide := (\<lambda>x y. if y = 0 then None else Some (x / y))\<rparr>"

definition probe ::
  "'a list \<Rightarrow> 'a list \<Rightarrow> 'a list \<Rightarrow> 'a list \<Rightarrow> real \<Rightarrow> real \<Rightarrow> error + (nat \<times> nat \<times> nat \<times> nat)" where
  \<comment> \<open>A batch function that accepts every input and reports the lengths it was called with.\<close>
  "probe a b c d t l = Inr (length a, length b, length c, length d)"

definition paired ::
  "'a list \<Rightarrow> 'a list \<Rightarrow> 'a list \<Rightarrow> 'a list \<Rightarrow> real \<Rightarrow> real \<Rightarrow> error + ('a \<times> 'a \<times> 'a \<times> 'a) list" where
  \<comment> \<open>A batch function that pairs the four series by period index.\<close>
  "paired a b c d t l = Inr (zip a (zip b (zip c d)))"

section \<open>The schedule\<close>







lemma date_filters_LST:
  "date_filters_img (collectionLST_image d) = [(Date d, Advance (Date d) 16 ''day'')]"
  by (simp add: collectionLST_image_def)

lemma date_filters_SOL:
  "date_filters_img (collectionSOL_image d) = [(Date d, Advance (Date d) 16 ''day'')]"
  by (simp add: collectionSOL_image_def)

lemma date_filters_sum16:
  "date_filters_img (imageSum16days d) = [(Date d, Advance (Date d) 16 ''day'')]"
  by (simp add: imageSum16days_def)

lemma date_filters_We:
  "remdups (date_filters_img (collectionWe_image d)) = [(Date d, Advance (Date d) 16 ''day'')]"
  by (simp add: collectionWe_image_def We_def ET_def PET_def date_filters_sum16)




text \<open>
  Claim C5 fails as stated: a list with one date, and a list whose dates decrease, both
  give a start and an end bound, and no error.
\<close>

theorem schedule_single_anchor:
  "startDate [''2018-01-01''] = Inr (Date ''2018-01-01'')
   \<and> endDate [''2018-01-01''] = Inr (Advance (Date ''2018-01-01'') 1 ''day'')
   \<and> startDate [''2018-01-17'', ''2018-01-01''] = Inr (Date ''2018-01-17'')
   \<and> endDate [''2018-01-17'', ''2018-01-01''] = Inr (Advance (Date ''2018-01-01'') 1 ''day'')"
  by (simp add: startDate_def endDate_def list_get_def)

lemma list_get_first: "ds \<noteq> [] \<Longrightarrow> list_get ds 0 = Inr (hd ds)"
  by (cases ds) (simp_all add: list_get_def)

lemma list_get_last: "ds \<noteq> [] \<Longrightarrow> list_get ds (- 1) = Inr (last ds)"
  by (cases ds) (simp_all add: list_get_def last_conv_nth)

text \<open>
  Claim C5, amended. The list of dates is not validated. For every non-empty list, whatever
  its length and order, the start bound is its first date, the end bound its last date plus
  one day, and each accumulated source filters by one 16-day range per date. Only the empty
  list fails, with an index out of bounds when the first date is read.
\<close>

theorem schedule_no_validation:
  "(ds \<noteq> [] \<longrightarrow>
      startDate ds = Inr (Date (hd ds))
      \<and> endDate ds = Inr (Advance (Date (last ds)) 1 ''day'')
      \<and> (\<exists>c. collectionNDVI ds = Inr c \<and> date_filters_coll c = [(Date (hd ds), Advance (Date (last ds)) 1 ''day'')]))
   \<and> startDate [] = Inl (IndexOutOfBounds 0)
   \<and> endDate [] = Inl (IndexOutOfBounds (- 1))
   \<and> collectionNDVI [] = Inl (IndexOutOfBounds 0)
   \<and> map date_filters_img (map collectionLST_image ds) = map (\<lambda>d. [(Date d, Advance (Date d) 16 ''day'')]) ds
   \<and> map date_filters_img (map collectionSOL_image ds) = map (\<lambda>d. [(Date d, Advance (Date d) 16 ''day'')]) ds
   \<and> map (remdups \<circ> date_filters_img) (map collectionWe_image ds) = map (\<lambda>d. [(Date d, Advance (Date d) 16 ''day'')]) ds"
proof -
  have a: "ds \<noteq> [] \<longrightarrow>
      startDate ds = Inr (Date (hd ds))
      \<and> endDate ds = Inr (Advance (Date (last ds)) 1 ''day'')
      \<and> (\<exists>c. collectionNDVI ds = Inr c \<and> date_filters_coll c = [(Date (hd ds), Advance (Date (last ds)) 1 ''day'')])"
    by (simp add: startDate_def endDate_def collectionNDVI_def list_get_first list_get_last)
  have b: "startDate [] = Inl (IndexOutOfBounds 0) \<and> endDate [] = Inl (IndexOutOfBounds (- 1))
      \<and> collectionNDVI [] = Inl (IndexOutOfBounds 0)"
    by (simp add: startDate_def endDate_def collectionNDVI_def list_get_def)
  have c: "map date_filters_img (map collectionLST_image ds) = map (\<lambda>d. [(Date d, Advance (Date d) 16 ''day'')]) ds"
    by (simp add: date_filters_LST)
  have d: "map date_filters_img (map collectionSOL_image ds) = map (\<lambda>d. [(Date d, Advance (Date d) 16 ''day'')]) ds"
    by (simp add: date_filters_SOL)
  have e: "map (remdups \<circ> date_filters_img) (map collectionWe_image ds) = map (\<lambda>d. [(Date d, Advance (Date d) 16 ''day'')]) ds"
    by (simp add: date_filters_We)
  from a b c d e show ?thesis by blast
qed

theorem schedule_no_validation_witness:
  "[''2018-01-17'', ''2018-01-01''] \<noteq> []
   \<and> startDate [''2018-01-17'', ''2018-01-01''] = Inr (Date ''2018-01-17'')
   \<and> endDate [''2018-01-17'', ''2018-01-01''] = Inr (Advance (Date ''2018-01-01'') 1 ''day'')"
  using schedule_no_validation [of "[''2018-01-17'', ''2018-01-01'']"] by simp

section \<open>The date property\<close>

lemma properties_LST: "properties (collectionLST_image d) = [(''date'', Str d)]"
  by (simp add: collectionLST_image_def)

lemma properties_SOL: "properties (collectionSOL_image d) = [(''date'', Str d)]"
  by (simp add: collectionSOL_image_def)

lemma properties_We: "properties (collectionWe_image d) = [(''data'', Str d)]"
  by (simp add: collectionWe_image_def We_def)

lemma properties_NDVI:
  "collectionNDVI ds = Inr c \<Longrightarrow>
     \<exists>w. c = MapC w (SetProp (Reproject (Binop Multiply (Rename (Clip MapArg ROI) ''NDVI'') (Constant 0.0001))
                          ''EPSG:4326'' SCALE_M_PX) ''date'' (DateFormat ''yyyy-MM-dd''))"
  by (auto simp: collectionNDVI_def split: sum.splits)

lemma date_property_siblings:
  "map_of (properties (collectionLST_image d)) ''date'' = Some (Str d)
   \<and> map_of (properties (collectionSOL_image d)) ''date'' = Some (Str d)
   \<and> map_of (properties (maskCollections (collectionLST_image d))) ''date'' = Some (Str d)
   \<and> map_of (properties (maskCollections (collectionSOL_image d))) ''date'' = Some (Str d)"
  by (simp add: properties_LST properties_SOL maskCollections_def)

text \<open>
  Claim C2 fails for the water-stress source. At the date 2018-01-01 the image built
  by \<^const>\<open>collectionWe_image\<close> has one property, named \<open>data\<close>; it has no property named
  \<open>date\<close>, before and after masking.
\<close>

theorem collectionWe_has_no_date:
  "properties (collectionWe_image ''2018-01-01'') = [(''data'', Str ''2018-01-01'')]
   \<and> map_of (properties (collectionWe_image ''2018-01-01'')) ''date'' = None
   \<and> map_of (properties (maskCollections (collectionWe_image ''2018-01-01''))) ''date'' = None"
  by (simp add: properties_We maskCollections_def)

section \<open>Reduction and reprojection\<close>


section \<open>The batch call\<close>

text \<open>
  Claim C7 fails as stated. Called with series of lengths 4, 4, 4 and 3, the batch call
  of the script hands them to the model's batch function, here one that reports the
  lengths it receives; nothing is raised before.
\<close>

theorem collectionNPP_unequal_lengths:
  "collectionNPP probe
     [ImageAsset ''n1'', ImageAsset ''n2'', ImageAsset ''n3'', ImageAsset ''n4'']
     (map (maskCollections \<circ> collectionLST_image) dates)
     (map (maskCollections \<circ> collectionSOL_image) dates)
     (map (maskCollections \<circ> collectionWe_image) (take 3 dates))
   = Inr (4, 4, 4, 3)"
  by (simp add: collectionNPP_def probe_def dates_def)

text \<open>
  Claim C7, amended. The batch call checks nothing: for every model and every four series,
  of equal lengths or not, its result is the result of the model's batch function on the
  four series, the optimal temperature and the maximal efficiency. With a model that gives
  one image per period for series of equal length, four series of length \<open>n\<close> give \<open>n\<close>
  images.
\<close>

theorem collectionNPP_delegates:
  "collectionNPP m cNDVI cLST cSOL cWe = m cNDVI cLST cSOL cWe Topt LUEmax
   \<and> ((\<forall>a b c d. length a = length b \<and> length b = length c \<and> length c = length d \<longrightarrow>
          (\<exists>out. m a b c d Topt LUEmax = Inr out \<and> length out = length a)) \<longrightarrow>
       length cNDVI = n \<and> length cLST = n \<and> length cSOL = n \<and> length cWe = n \<longrightarrow>
       (\<exists>out. collectionNPP m cNDVI cLST cSOL cWe = Inr out \<and> length out = n))"
proof -
  have call: "collectionNPP m cNDVI cLST cSOL cWe = m cNDVI cLST cSOL cWe Topt LUEmax"
    by (simp add: collectionNPP_def)
  have "\<exists>out. collectionNPP m cNDVI cLST cSOL cWe = Inr out \<and> length out = n"
    if model: "\<forall>a b c d. length a = length b \<and> length b = length c \<and> length c = length d \<longrightarrow>
          (\<exists>out. m a b c d Topt LUEmax = Inr out \<and> length out = length a)"
      and len: "length cNDVI = n \<and> length cLST = n \<and> length cSOL = n \<and> length cWe = n"
  proof -
    from len have "length cNDVI = length cLST \<and> length cLST = length cSOL \<and> length cSOL = length cWe"
      by simp
    with model have "\<exists>out. m cNDVI cLST cSOL cWe Topt LUEmax = Inr out \<and> length out = length cNDVI"
      by blast
    with call len show ?thesis by simp
  qed
  with call show ?thesis by blast
qed

theorem collectionNPP_delegates_witness:
  "map_sum id length
     (collectionNPP paired
        [ImageAsset ''n1'', ImageAsset ''n2'', ImageAsset ''n3'', ImageAsset ''n4'']
        (map (maskCollections \<circ> collectionLST_image) dates)
        (map (maskCollections \<circ> collectionSOL_image) dates)
        (map (maskCollections \<circ> collectionWe_image) dates))
   = Inr 4
   \<and> collectionNPP paired
        [ImageAsset ''n1'', ImageAsset ''n2'', ImageAsset ''n3'']
        [ImageAsset ''l1'', ImageAsset ''l2'', ImageAsset ''l3'', ImageAsset ''l4'']
        [ImageAsset ''s1'', ImageAsset ''s2'', ImageAsset ''s3'', ImageAsset ''s4'']
        [ImageAsset ''w1'', ImageAsset ''w2'', ImageAsset ''w3'', ImageAsset ''w4'']
      = paired
        [ImageAsset ''n1'', ImageAsset ''n2'', ImageAsset ''n3'']
        [ImageAsset ''l1'', ImageAsset ''l2'', ImageAsset ''l3'', ImageAsset ''l4'']
        [ImageAsset ''s1'', ImageAsset ''s2'', ImageAsset ''s3'', ImageAsset ''s4'']
        [ImageAsset ''w1'', ImageAsset ''w2'', ImageAsset ''w3'', ImageAsset ''w4'']
        Topt LUEmax"
proof -
  let ?n = "[ImageAsset ''n1'', ImageAsset ''n2'', ImageAsset ''n3'', ImageAsset ''n4'']"
  let ?l = "map (maskCollections \<circ> collectionLST_image) dates"
  let ?s = "map (maskCollections \<circ> collectionSOL_image) dates"
  let ?w = "map (maskCollections \<circ> collectionWe_image) dates"
  have model: "\<forall>(a::image list) b c d.
                 length a = length b \<and> length b = length c \<and> length c = length d \<longrightarrow>
                 (\<exists>out. paired a b c d Topt LUEmax = Inr out \<and> length out = length a)"
    by (simp add: paired_def)
  have len: "length ?n = 4 \<and> length ?l = 4 \<and> length ?s = 4 \<and> length ?w = 4"
    by (simp add: dates_def)
  from collectionNPP_delegates [where m = paired and cNDVI = ?n and cLST = ?l and cSOL = ?s
      and cWe = ?w and n = 4] model len
  obtain out where "collectionNPP paired ?n ?l ?s ?w = Inr out" and "length out = 4"
    by blast
  then have equal: "map_sum id length (collectionNPP paired ?n ?l ?s ?w) = Inr 4"
    by simp
  from collectionNPP_delegates [where m = paired
      and cNDVI = "[ImageAsset ''n1'', ImageAsset ''n2'', ImageAsset ''n3'']"
      and cLST = "[ImageAsset ''l1'', ImageAsset ''l2'', ImageAsset ''l3'', ImageAsset ''l4'']"
      and cSOL = "[ImageAsset ''s1'', ImageAsset ''s2'', ImageAsset ''s3'', ImageAsset ''s4'']"
      and cWe = "[ImageAsset ''w1'', ImageAsset ''w2'', ImageAsset ''w3'', ImageAsset ''w4'']"]
  have unequal: "collectionNPP paired
        [ImageAsset ''n1'', ImageAsset ''n2'', ImageAsset ''n3'']
        [ImageAsset ''l1'', ImageAsset ''l2'', ImageAsset ''l3'', ImageAsset ''l4'']
        [ImageAsset ''s1'', ImageAsset ''s2'', ImageAsset ''s3'', ImageAsset ''s4'']
        [ImageAsset ''w1'', ImageAsset ''w2'', ImageAsset ''w3'', ImageAsset ''w4'']
      = paired
        [ImageAsset ''n1'', ImageAsset ''n2'', ImageAsset ''n3'']
        [ImageAsset ''l1'', ImageAsset ''l2'', ImageAsset ''l3'', ImageAsset ''l4'']
        [ImageAsset ''s1'', ImageAsset ''s2'', ImageAsset ''s3'', ImageAsset ''s4'']
        [ImageAsset ''w1'', ImageAsset ''w2'', ImageAsset ''w3'', ImageAsset ''w4'']
        Topt LUEmax"
    by (rule conjunct1)
  from equal unequal show ?thesis by (rule conjI)
qed

section \<open>Masking\<close>

lemma mask_band_idem: "mask_band m (mask_band m f) = mask_band m f"
  by (auto simp: mask_band_def fun_eq_iff split: option.splits)

lemma mask_zip_idem:
  "length r = length mr \<Longrightarrow>
     map (\<lambda>((n, f), (k, m)). (n, mask_band m f))
         (zip (map (\<lambda>((n, f), (k, m)). (n, mask_band m f)) (zip r mr)) mr)
     = map (\<lambda>((n, f), (k, m)). (n, mask_band m f)) (zip r mr)"
  by (induction r mr rule: list_induct2) (auto simp: mask_band_idem)

lemma update_mask_idem:
  assumes "update_mask r mr = Inr r'"
  shows "update_mask r' mr = Inr r'"
proof (cases "\<exists>k m. mr = [(k, m)]")
  case True
  then obtain k m where mr: "mr = [(k, m)]" by blast
  with assms have "r' = map (\<lambda>(n, f). (n, mask_band m f)) r"
    by (simp add: update_mask_def)
  with mr show ?thesis
    by (auto simp: update_mask_def mask_band_idem)
next
  case False
  then have shape: "update_mask r mr =
      (if length mr = length r
       then Inr (map (\<lambda>((n, f), (k, m)). (n, mask_band m f)) (zip r mr))
       else Inl BandCountMismatch)" for r
    by (auto simp: update_mask_def split: list.splits prod.splits)
  from assms have len: "length mr = length r"
    and r': "r' = map (\<lambda>((n, f), (k, m)). (n, mask_band m f)) (zip r mr)"
    by (auto simp: shape split: if_splits)
  from len r' have "length mr = length r'" by simp
  moreover from len have "map (\<lambda>((n, f), (k, m)). (n, mask_band m f)) (zip r' mr) = r'"
    unfolding r' by (simp add: mask_zip_idem)
  ultimately show ?thesis by (simp add: shape)
qed

text \<open>
  Claim C6. Masking a masked image again with the same mask gives what masking once gives,
  for every image, every mask and every provider, errors included; in particular for the
  script's \<^const>\<open>maskCollections\<close>.
\<close>

theorem mask_idempotent:
  "eval_img P a (UpdateMask (UpdateMask x m) m) = eval_img P a (UpdateMask x m)
   \<and> eval_img P a (maskCollections (maskCollections x)) = eval_img P a (maskCollections x)"
proof -
  have general: "eval_img P a (UpdateMask (UpdateMask x m) m) = eval_img P a (UpdateMask x m)" for m
  proof (cases "eval_img P a x")
    case (Inl e)
    then show ?thesis by simp
  next
    case (Inr r)
    note x = this
    show ?thesis
    proof (cases "eval_img P a m")
      case (Inl e)
      with x show ?thesis by simp
    next
      case (Inr mr)
      with x show ?thesis
        by (cases "update_mask r mr") (simp_all add: update_mask_idem)
    qed
  qed
  then show ?thesis by (simp add: maskCollections_def)
qed

section \<open>Evaluating the builders\<close>

lemma region_ROI:
  "regions P ''users/leobeckerdaluz/FIXED_shapes/mesoregionRS'' = Some reg \<Longrightarrow> region P ROI = Inr reg"
  by (simp add: region_def ROI_def)

lemma map_of_schema:
  "b \<in> set bs \<Longrightarrow> map_of (map (\<lambda>k. (k, F k)) bs) b = Some (F b)"
  by (induction bs) auto

lemma select_reduce:
  "b \<in> set (cv_schema cv) \<Longrightarrow>
     select_band b (reduce_cv r cv) = Inr [(b, \<lambda>p. reduce_values r (values_at b p (cv_elems cv)))]"
  by (simp add: select_band_def reduce_cv_def map_of_schema)

lemma values_at_select: "values_at b p (select_elems b es) = values_at b p es"
proof -
  have "map_of (filter (\<lambda>(n, f). n = b) r) b = map_of r b" for r :: raster
    by (induction r) auto
  then show ?thesis
    by (simp add: values_at_def select_elems_def comp_def)
qed

lemma binop_constant:
  "binop_raster P op [(n, f)] [(k, \<lambda>p. Some c)]
     = Inr [(n, \<lambda>p. case f p of None \<Rightarrow> None | Some v \<Rightarrow> apply_binop P op v c)]"
  by (auto simp: binop_raster_def binop_band_def fun_eq_iff split: option.splits)

lemma eval_binop_constant:
  "eval_img P a x = Inr [(n, f)] \<Longrightarrow>
     eval_img P a (Binop op x (Constant c))
       = Inr [(n, \<lambda>p. case f p of None \<Rightarrow> None | Some v \<Rightarrow> apply_binop P op v c)]"
  by (simp add: binop_constant)

lemma eval_LST_window:
  assumes "collections P ''MODIS/061/MOD11A2'' = Some cv"
    and "''LST_Day_1km'' \<in> set (cv_schema cv)"
    and "regions P ''users/leobeckerdaluz/FIXED_shapes/mesoregionRS'' = Some reg"
    and "parse_date d = Inr t"
  shows "eval_img P a
           (Reduce Mean
             (SelectC
               (FilterDate (FilterBounds (ImageCollection ''MODIS/061/MOD11A2'') ROI)
                  (Date d) (Advance (Date d) 16 ''day''))
               ''LST_Day_1km''))
         = Inr [(''LST_Day_1km'', \<lambda>p. reduce_values Mean (values_at ''LST_Day_1km'' p
                   (filter_date t (t + 16 * ms_per_day) (filter_bounds reg (cv_elems cv)))))]"
  using assms by (simp add: region_ROI reduce_cv_def values_at_select)

lemma eval_LST_image:
  assumes "collections P ''MODIS/061/MOD11A2'' = Some cv"
    and "''LST_Day_1km'' \<in> set (cv_schema cv)"
    and "regions P ''users/leobeckerdaluz/FIXED_shapes/mesoregionRS'' = Some reg"
    and "parse_date d = Inr t"
  shows "eval_img P a (collectionLST_image d)
         = Inr [(''LST'', resample P ''EPSG:4326'' SCALE_M_PX (clip_band reg
              (\<lambda>p. map_option (\<lambda>v. v * 0.02 - 273.15)
                     (reduce_values Mean (values_at ''LST_Day_1km'' p
                        (filter_date t (t + 16 * ms_per_day) (filter_bounds reg (cv_elems cv))))))))]"
proof -
  let ?m = "\<lambda>p. reduce_values Mean (values_at ''LST_Day_1km'' p
                   (filter_date t (t + 16 * ms_per_day) (filter_bounds reg (cv_elems cv))))"
  let ?w = "Reduce Mean
             (SelectC
               (FilterDate (FilterBounds (ImageCollection ''MODIS/061/MOD11A2'') ROI)
                  (Date d) (Advance (Date d) 16 ''day''))
               ''LST_Day_1km'')"
  have w: "eval_img P a ?w = Inr [(''LST_Day_1km'', ?m)]"
    using assms by (rule eval_LST_window)
  then have r: "eval_img P a (Rename ?w ''LST'') = Inr [(''LST'', ?m)]"
    by (simp add: rename_band_def)
  have conv: "(\<lambda>p. case (case ?m p of None \<Rightarrow> None | Some v \<Rightarrow> apply_binop P Multiply v 0.02) of
                  None \<Rightarrow> None | Some v \<Rightarrow> apply_binop P Subtract v 273.15)
              = (\<lambda>p. map_option (\<lambda>v. v * 0.02 - 273.15) (?m p))"
    by (auto simp: fun_eq_iff apply_binop_def split: option.splits)
  have "eval_img P a (Binop Subtract (Binop Multiply (Rename ?w ''LST'') (Constant 0.02)) (Constant 273.15))
        = Inr [(''LST'', \<lambda>p. map_option (\<lambda>v. v * 0.02 - 273.15) (?m p))]"
    using eval_binop_constant [OF eval_binop_constant [OF r, of Multiply "0.02"], of Subtract "273.15"]
    by (simp only: conv)
  then show ?thesis
    using assms(3) by (simp add: collectionLST_image_def region_ROI)
qed


text \<open>
  Claim C3. The temperature image of a date is the reprojection of the clipped band whose
  value at a pixel is \<open>v * 0.02 - 273.15\<close>, where \<open>v\<close> is the mean over the images of the
  16-day window that are valid at the pixel: the scale is applied first, the offset second.
  Where the mean is 300 inside the region, the converted value is -267.15.
\<close>

theorem temperature_conversion:
  assumes "collections P ''MODIS/061/MOD11A2'' = Some cv"
    and "''LST_Day_1km'' \<in> set (cv_schema cv)"
    and "regions P ''users/leobeckerdaluz/FIXED_shapes/mesoregionRS'' = Some reg"
    and "parse_date d = Inr t"
  defines "mean \<equiv> \<lambda>p. reduce_values Mean (values_at ''LST_Day_1km'' p
                     (filter_date t (t + 16 * ms_per_day) (filter_bounds reg (cv_elems cv))))"
  shows "eval_img P a (collectionLST_image d)
           = Inr [(''LST'', resample P ''EPSG:4326'' SCALE_M_PX
                     (clip_band reg (\<lambda>p. map_option (\<lambda>v. v * 0.02 - 273.15) (mean p))))]
         \<and> (p \<in> set reg \<longrightarrow> mean p = Some 300 \<longrightarrow>
              clip_band reg (\<lambda>p. map_option (\<lambda>v. v * 0.02 - 273.15) (mean p)) p = Some (- 267.15))"
proof -
  have "eval_img P a (collectionLST_image d)
           = Inr [(''LST'', resample P ''EPSG:4326'' SCALE_M_PX
                     (clip_band reg (\<lambda>p. map_option (\<lambda>v. v * 0.02 - 273.15) (mean p))))]"
    unfolding mean_def using assms(1-4) by (rule eval_LST_image)
  moreover have "p \<in> set reg \<longrightarrow> mean p = Some 300 \<longrightarrow>
              clip_band reg (\<lambda>p. map_option (\<lambda>v. v * 0.02 - 273.15) (mean p)) p = Some (- 267.15)"
    by (simp add: clip_band_def)
  ultimately show ?thesis by blast
qed

lemma demo_LST_catalogue: "collections demo_provider ''MODIS/061/MOD11A2'' = Some demo_LST"
  by (simp add: demo_provider_def demo_collections_def)

lemma demo_roi:
  "regions demo_provider ''users/leobeckerdaluz/FIXED_shapes/mesoregionRS'' = Some demo_region"
  by (simp add: demo_provider_def)

lemma parse_2018_01_01: "parse_date ''2018-01-01'' = Inr (day 0)"
  by code_simp

theorem temperature_conversion_witness:
  "pixel_value (eval_img demo_provider None (collectionLST_image ''2018-01-01'')) ''LST'' (0, 0)
     = Some (- 267.15)"
proof -
  have band: "''LST_Day_1km'' \<in> set (cv_schema demo_LST)"
    by (simp add: demo_LST_def)
  have inside: "(0, 0) \<in> set demo_region"
    by (simp add: demo_region_def)
  have mean: "reduce_values Mean (values_at ''LST_Day_1km'' (0, 0)
                (filter_date (day 0) (day 0 + 16 * ms_per_day)
                   (filter_bounds demo_region (cv_elems demo_LST)))) = Some 300"
    by (simp add: reduce_values_def values_at_def filter_date_def filter_bounds_def
        demo_region_def demo_LST_def day_def ms_per_day_def band_of_def)
  from temperature_conversion [OF demo_LST_catalogue band demo_roi parse_2018_01_01, of None "(0, 0)"]
    inside mean
  show ?thesis
    by (simp add: pixel_value_def demo_provider_def)
qed

section \<open>The water-stress ratio\<close>

lemma eval_imageSum16days:
  assumes "collections P ''MODIS/006/MOD16A2'' = Some cv"
    and "regions P ''users/leobeckerdaluz/FIXED_shapes/mesoregionRS'' = Some reg"
    and "parse_date d = Inr t"
  shows "eval_img P a (imageSum16days d)
         = Inr (reduce_cv Sum (cv\<lparr>cv_elems :=
              filter_bounds reg (filter_date t (t + 16 * ms_per_day) (cv_elems cv))\<rparr>))"
  using assms by (simp add: imageSum16days_def region_ROI)

lemma eval_ET:
  assumes "collections P ''MODIS/006/MOD16A2'' = Some cv"
    and "''ET'' \<in> set (cv_schema cv)"
    and "regions P ''users/leobeckerdaluz/FIXED_shapes/mesoregionRS'' = Some reg"
    and "parse_date d = Inr t"
  shows "eval_img P a (ET d)
         = Inr [(''ET'', \<lambda>p. reduce_values Sum (values_at ''ET'' p
              (filter_bounds reg (filter_date t (t + 16 * ms_per_day) (cv_elems cv)))))]"
  using assms(2) eval_imageSum16days [OF assms(1,3,4)]
  by (simp add: ET_def select_reduce)

lemma eval_PET:
  assumes "collections P ''MODIS/006/MOD16A2'' = Some cv"
    and "''PET'' \<in> set (cv_schema cv)"
    and "regions P ''users/leobeckerdaluz/FIXED_shapes/mesoregionRS'' = Some reg"
    and "parse_date d = Inr t"
  shows "eval_img P a (PET d)
         = Inr [(''PET'', \<lambda>p. reduce_values Sum (values_at ''PET'' p
              (filter_bounds reg (filter_date t (t + 16 * ms_per_day) (cv_elems cv)))))]"
  using assms(2) eval_imageSum16days [OF assms(1,3,4)]
  by (simp add: PET_def select_reduce)

lemma eval_We:
  assumes "collections P ''MODIS/006/MOD16A2'' = Some cv"
    and "''ET'' \<in> set (cv_schema cv)"
    and "''PET'' \<in> set (cv_schema cv)"
    and "regions P ''users/leobeckerdaluz/FIXED_shapes/mesoregionRS'' = Some reg"
    and "parse_date d = Inr t"
  shows "eval_img P a (We d)
         = Inr [(''ET'', \<lambda>p.
              case reduce_values Sum (values_at ''ET'' p
                     (filter_bounds reg (filter_date t (t + 16 * ms_per_day) (cv_elems cv)))) of
                None \<Rightarrow> None
              | Some x \<Rightarrow>
                 (case reduce_values Sum (values_at ''PET'' p
                         (filter_bounds reg (filter_date t (t + 16 * ms_per_day) (cv_elems cv)))) of
                    None \<Rightarrow> None
                  | Some y \<Rightarrow> map_option (\<lambda>q. q * 0.5 + 0.5) (pdivide P x y)))]"
proof -
  let ?num = "\<lambda>p. reduce_values Sum (values_at ''ET'' p
                 (filter_bounds reg (filter_date t (t + 16 * ms_per_day) (cv_elems cv))))"
  let ?den = "\<lambda>p. reduce_values Sum (values_at ''PET'' p
                 (filter_bounds reg (filter_date t (t + 16 * ms_per_day) (cv_elems cv))))"
  have et: "eval_img P a (ET d) = Inr [(''ET'', ?num)]"
    using assms(1,2,4,5) by (rule eval_ET)
  have pet: "eval_img P a (PET d) = Inr [(''PET'', ?den)]"
    using assms(1,3,4,5) by (rule eval_PET)
  have quot: "eval_img P a (Binop Divide (ET d) (PET d))
              = Inr [(''ET'', binop_band P Divide ?num ?den)]"
    by (simp add: et pet binop_raster_def)
  have shape: "(\<lambda>p. case (case binop_band P Divide ?num ?den p of None \<Rightarrow> None
                              | Some v \<Rightarrow> apply_binop P Multiply v 0.5) of
                    None \<Rightarrow> None | Some v \<Rightarrow> apply_binop P Add v 0.5)
              = (\<lambda>p. case ?num p of None \<Rightarrow> None
                     | Some x \<Rightarrow> (case ?den p of None \<Rightarrow> None
                         | Some y \<Rightarrow> map_option (\<lambda>q. q * 0.5 + 0.5) (pdivide P x y)))"
    by (auto simp: fun_eq_iff binop_band_def apply_binop_def split: option.splits)
  show ?thesis
    unfolding We_def
    using eval_binop_constant [OF eval_binop_constant [OF quot, of Multiply "0.5"], of Add "0.5"]
    by (simp only: shape)
qed


lemma eval_We_image:
  assumes "eval_img P a (We d) = Inr [(n, f)]"
    and "regions P ''users/leobeckerdaluz/FIXED_shapes/mesoregionRS'' = Some reg"
  shows "eval_img P a (collectionWe_image d)
         = Inr [(''We'', resample P ''EPSG:4326'' SCALE_M_PX (clip_band reg f))]"
  using assms by (simp add: collectionWe_image_def rename_band_def region_ROI)

lemma pixel_value_single: "pixel_value (Inr [(n, f)]) n = f"
  by (simp add: pixel_value_def fun_eq_iff)

text \<open>
  Claim C4. With a provider whose division by a non-zero value is the quotient, the
  water-stress ratio at a pixel is \<open>n / k * 0.5 + 0.5\<close>, for \<open>n\<close> the sum of the numerator
  band and \<open>k \<noteq> 0\<close> the sum of the denominator band over the 16-day window; it is 1 where
  the two sums are equal and 0.5 where the numerator sum is 0. The image of the series is
  this band, renamed, clipped and reprojected.
\<close>

theorem water_stress_ratio:
  assumes "collections P ''MODIS/006/MOD16A2'' = Some cv"
    and "''ET'' \<in> set (cv_schema cv)"
    and "''PET'' \<in> set (cv_schema cv)"
    and "regions P ''users/leobeckerdaluz/FIXED_shapes/mesoregionRS'' = Some reg"
    and "parse_date d = Inr t"
    and division: "\<And>x y. y \<noteq> 0 \<Longrightarrow> pdivide P x y = Some (x / y)"
  defines "window \<equiv> filter_bounds reg (filter_date t (t + 16 * ms_per_day) (cv_elems cv))"
  defines "num \<equiv> \<lambda>p. reduce_values Sum (values_at ''ET'' p window)"
  defines "den \<equiv> \<lambda>p. reduce_values Sum (values_at ''PET'' p window)"
  shows "(num p = Some n \<longrightarrow> den p = Some k \<longrightarrow> k \<noteq> 0 \<longrightarrow>
            pixel_value (eval_img P a (We d)) ''ET'' p = Some (n / k * 0.5 + 0.5))
         \<and> (num p = Some k \<longrightarrow> den p = Some k \<longrightarrow> k \<noteq> 0 \<longrightarrow>
            pixel_value (eval_img P a (We d)) ''ET'' p = Some 1)
         \<and> (num p = Some 0 \<longrightarrow> den p = Some k \<longrightarrow> k \<noteq> 0 \<longrightarrow>
            pixel_value (eval_img P a (We d)) ''ET'' p = Some 0.5)
         \<and> eval_img P a (collectionWe_image d)
             = Inr [(''We'', resample P ''EPSG:4326'' SCALE_M_PX
                       (clip_band reg (pixel_value (eval_img P a (We d)) ''ET'')))]"
proof -
  have we: "eval_img P a (We d)
         = Inr [(''ET'', \<lambda>p. case num p of None \<Rightarrow> None
              | Some x \<Rightarrow> (case den p of None \<Rightarrow> None
                  | Some y \<Rightarrow> map_option (\<lambda>q. q * 0.5 + 0.5) (pdivide P x y)))]"
    unfolding num_def den_def window_def using assms(1-5) by (rule eval_We)
  have general: "pixel_value (eval_img P a (We d)) ''ET'' p = Some (x / y * 0.5 + 0.5)"
    if "num p = Some x" "den p = Some y" "y \<noteq> 0" for x y
    using that by (simp add: we pixel_value_def division)
  have one: "num p = Some k \<longrightarrow> den p = Some k \<longrightarrow> k \<noteq> 0 \<longrightarrow>
            pixel_value (eval_img P a (We d)) ''ET'' p = Some 1"
    using general [of k k] by simp
  have half: "num p = Some 0 \<longrightarrow> den p = Some k \<longrightarrow> k \<noteq> 0 \<longrightarrow>
            pixel_value (eval_img P a (We d)) ''ET'' p = Some 0.5"
    using general [of 0 k] by simp
  have entry: "eval_img P a (collectionWe_image d)
             = Inr [(''We'', resample P ''EPSG:4326'' SCALE_M_PX
                       (clip_band reg (pixel_value (eval_img P a (We d)) ''ET'')))]"
    using eval_We_image [OF we assms(4)] by (simp add: we pixel_value_single)
  from general one half entry show ?thesis by blast
qed

lemma demo_MOD16_catalogue: "collections demo_provider ''MODIS/006/MOD16A2'' = Some demo_MOD16"
  by (simp add: demo_provider_def demo_collections_def)

lemma demo_MOD16_bands: "''ET'' \<in> set (cv_schema demo_MOD16)" "''PET'' \<in> set (cv_schema demo_MOD16)"
  by (simp_all add: demo_MOD16_def)

lemmas demo_window_defs =
  reduce_values_def values_at_def filter_date_def filter_bounds_def
  demo_region_def demo_MOD16_def day_def ms_per_day_def band_of_def

theorem water_stress_ratio_witness:
  "pixel_value (eval_img demo_provider None (We ''2018-01-01'')) ''ET'' (0, 0) = Some 1
   \<and> pixel_value (eval_img demo_provider None (We ''2018-01-01'')) ''ET'' (0, 1) = Some 0.5"
proof -
  have division: "\<And>x y. y \<noteq> 0 \<Longrightarrow> pdivide demo_provider x y = Some (x / y)"
    by (simp add: demo_provider_def)
  have n00: "reduce_values Sum (values_at ''ET'' (0, 0)
        (filter_bounds demo_region (filter_date (day 0) (day 0 + 16 * ms_per_day) (cv_elems demo_MOD16))))
      = Some 7"
    by (auto simp: demo_window_defs)
  have d00: "reduce_values Sum (values_at ''PET'' (0, 0)
        (filter_bounds demo_region (filter_date (day 0) (day 0 + 16 * ms_per_day) (cv_elems demo_MOD16))))
      = Some 7"
    by (auto simp: demo_window_defs)
  have n01: "reduce_values Sum (values_at ''ET'' (0, 1)
        (filter_bounds demo_region (filter_date (day 0) (day 0 + 16 * ms_per_day) (cv_elems demo_MOD16))))
      = Some 0"
    by (auto simp: demo_window_defs)
  have d01: "reduce_values Sum (values_at ''PET'' (0, 1)
        (filter_bounds demo_region (filter_date (day 0) (day 0 + 16 * ms_per_day) (cv_elems demo_MOD16))))
      = Some 10"
    by (auto simp: demo_window_defs)
  note ratio = water_stress_ratio [OF demo_MOD16_catalogue demo_MOD16_bands demo_roi parse_2018_01_01 division]
  from ratio [where p = "(0, 0)" and n = 7 and k = 7 and a = None] n00 d00
  have a: "pixel_value (eval_img demo_provider None (We ''2018-01-01'')) ''ET'' (0, 0) = Some 1"
    by simp
  from ratio [where p = "(0, 1)" and n = 0 and k = 10 and a = None] n01 d01
  have b: "pixel_value (eval_img demo_provider None (We ''2018-01-01'')) ''ET'' (0, 1) = Some 0.5"
    by simp
  from a b show ?thesis by blast
qed

text \<open>
  Claim C10. The ratio is computed with no test of the denominator: at every pixel where
  both sums are valid the value is the provider's quotient, scaled and shifted. Where the
  denominator sum is 0 the result is valid exactly when the provider's division by zero
  gives a value.
\<close>

theorem water_stress_zero_denominator:
  assumes "collections P ''MODIS/006/MOD16A2'' = Some cv"
    and "''ET'' \<in> set (cv_schema cv)"
    and "''PET'' \<in> set (cv_schema cv)"
    and "regions P ''users/leobeckerdaluz/FIXED_shapes/mesoregionRS'' = Some reg"
    and "parse_date d = Inr t"
  defines "window \<equiv> filter_bounds reg (filter_date t (t + 16 * ms_per_day) (cv_elems cv))"
  defines "num \<equiv> \<lambda>p. reduce_values Sum (values_at ''ET'' p window)"
  defines "den \<equiv> \<lambda>p. reduce_values Sum (values_at ''PET'' p window)"
  shows "eval_img P a (We d)
           = Inr [(''ET'', \<lambda>p. case num p of None \<Rightarrow> None
                | Some x \<Rightarrow> (case den p of None \<Rightarrow> None
                    | Some y \<Rightarrow> map_option (\<lambda>q. q * 0.5 + 0.5) (pdivide P x y)))]
         \<and> (num p = Some x \<longrightarrow> den p = Some 0 \<longrightarrow>
              pixel_value (eval_img P a (We d)) ''ET'' p = map_option (\<lambda>q. q * 0.5 + 0.5) (pdivide P x 0)
              \<and> (pixel_value (eval_img P a (We d)) ''ET'' p = None \<longleftrightarrow> pdivide P x 0 = None))"
proof -
  have we: "eval_img P a (We d)
         = Inr [(''ET'', \<lambda>p. case num p of None \<Rightarrow> None
              | Some x \<Rightarrow> (case den p of None \<Rightarrow> None
                  | Some y \<Rightarrow> map_option (\<lambda>q. q * 0.5 + 0.5) (pdivide P x y)))]"
    unfolding num_def den_def window_def using assms(1-5) by (rule eval_We)
  have "pixel_value (eval_img P a (We d)) ''ET'' p = map_option (\<lambda>q. q * 0.5 + 0.5) (pdivide P x 0)"
    if "num p = Some x" "den p = Some 0"
    using that by (simp add: we pixel_value_def)
  with we show ?thesis by auto
qed

theorem water_stress_zero_denominator_witness:
  "pixel_value (eval_img demo_provider None (We ''2018-01-01'')) ''ET'' (1, 1) = Some 0.5
   \<and> pixel_value (eval_img nodata_provider None (We ''2018-01-01'')) ''ET'' (1, 1) = None"
proof -
  have n11: "reduce_values Sum (values_at ''ET'' (1, 1)
        (filter_bounds demo_region (filter_date (day 0) (day 0 + 16 * ms_per_day) (cv_elems demo_MOD16))))
      = Some 4"
    by (auto simp: demo_window_defs)
  have d11: "reduce_values Sum (values_at ''PET'' (1, 1)
        (filter_bounds demo_region (filter_date (day 0) (day 0 + 16 * ms_per_day) (cv_elems demo_MOD16))))
      = Some 0"
    by (auto simp: demo_window_defs)
  have div0: "pdivide demo_provider 4 0 = Some 0"
    by (simp add: demo_provider_def)
  have div0': "pdivide nodata_provider 4 0 = None"
    by (simp add: nodata_provider_def)
  have cat': "collections nodata_provider ''MODIS/006/MOD16A2'' = Some demo_MOD16"
    by (simp add: nodata_provider_def demo_provider_def demo_collections_def)
  have roi': "regions nodata_provider ''users/leobeckerdaluz/FIXED_shapes/mesoregionRS'' = Some demo_region"
    by (simp add: nodata_provider_def demo_provider_def)
  from water_stress_zero_denominator
         [OF demo_MOD16_catalogue demo_MOD16_bands demo_roi parse_2018_01_01,
          where p = "(1, 1)" and x = 4 and a = None, THEN conjunct2]
       n11 d11
  have a: "pixel_value (eval_img demo_provider None (We ''2018-01-01'')) ''ET'' (1, 1) = Some 0.5"
    by (simp add: div0)
  from water_stress_zero_denominator
         [OF cat' demo_MOD16_bands roi' parse_2018_01_01,
          where p = "(1, 1)" and x = 4 and a = None, THEN conjunct2]
       n11 d11
  have b: "pixel_value (eval_img nodata_provider None (We ''2018-01-01'')) ''ET'' (1, 1) = None"
    by (simp add: div0')
  from a b show ?thesis by blast
qed

section \<open>Windows without images\<close>

lemma reduce_empty: "reduce_values r (values_at b p []) = None"
  by (simp add: reduce_values_def values_at_def)

lemma clip_nodata: "clip_band reg (\<lambda>p. None) = (\<lambda>p. None)"
  by (simp add: clip_band_def fun_eq_iff)

lemma mask_nodata: "mask_band m (\<lambda>p. None) = (\<lambda>p. None)"
  by (auto simp: mask_band_def fun_eq_iff split: option.splits)

lemma eval_SOL_image:
  assumes "collections P ''ECMWF/ERA5_LAND/HOURLY'' = Some cv"
    and "''surface_solar_radiation_downwards_hourly'' \<in> set (cv_schema cv)"
    and "regions P ''users/leobeckerdaluz/FIXED_shapes/mesoregionRS'' = Some reg"
    and "parse_date d = Inr t"
  shows "eval_img P a (collectionSOL_image d)
         = Inr [(''SOL'', resample P ''EPSG:4326'' SCALE_M_PX (clip_band reg
              (\<lambda>p. case reduce_values Sum (values_at ''surface_solar_radiation_downwards_hourly'' p
                        (filter_date t (t + 16 * ms_per_day) (filter_bounds reg (cv_elems cv)))) of
                      None \<Rightarrow> None | Some v \<Rightarrow> pdivide P v 1000000)))]"
proof -
  let ?w = "Reduce Sum
             (SelectC
               (FilterDate (FilterBounds (ImageCollection ''ECMWF/ERA5_LAND/HOURLY'') ROI)
                  (Date d) (Advance (Date d) 16 ''day''))
               ''surface_solar_radiation_downwards_hourly'')"
  let ?s = "\<lambda>p. reduce_values Sum (values_at ''surface_solar_radiation_downwards_hourly'' p
                        (filter_date t (t + 16 * ms_per_day) (filter_bounds reg (cv_elems cv))))"
  have "eval_img P a ?w = Inr [(''surface_solar_radiation_downwards_hourly'', ?s)]"
    using assms by (simp add: region_ROI reduce_cv_def values_at_select)
  then have r: "eval_img P a (Rename ?w ''SOL'') = Inr [(''SOL'', ?s)]"
    by (simp add: rename_band_def)
  have conv: "(\<lambda>p. case ?s p of None \<Rightarrow> None | Some v \<Rightarrow> apply_binop P Divide v 1000000)
              = (\<lambda>p. case ?s p of None \<Rightarrow> None | Some v \<Rightarrow> pdivide P v 1000000)"
    by (auto simp: fun_eq_iff apply_binop_def split: option.splits)
  have "eval_img P a (Binop Divide (Rename ?w ''SOL'') (Constant 1000000))
        = Inr [(''SOL'', \<lambda>p. case ?s p of None \<Rightarrow> None | Some v \<Rightarrow> pdivide P v 1000000)]"
    using eval_binop_constant [OF r, of Divide "1000000"] by (simp only: conv)
  then show ?thesis
    using assms(3) by (simp add: collectionSOL_image_def region_ROI)
qed

lemma eval_mask_single:
  assumes "eval_img P a x = Inr [(n, f)]"
    and "images P ''users/leobeckerdaluz/FIXED/soybeanMask_mesoregionRS'' = Some [(k, m)]"
  shows "eval_img P a (maskCollections x) = Inr [(n, mask_band m f)]"
  using assms by (simp add: maskCollections_def soybeanMask_def update_mask_def)

lemma sequence_all_single:
  assumes "\<And>x. x \<in> set xs \<Longrightarrow> \<exists>n f. F x = Inr [(n, f)]"
  shows "\<exists>ys. sequence (map F xs) = Inr ys \<and> length ys = length xs
              \<and> (\<forall>y \<in> set ys. \<exists>n (f :: band). y = [(n :: string, f)])"
  using assms
proof (induction xs)
  case Nil
  then show ?case by simp
next
  case (Cons x xs)
  then obtain n f where x: "F x = Inr [(n, f)]" by fastforce
  from Cons obtain ys where "sequence (map F xs) = Inr ys" "length ys = length xs"
      "\<forall>y \<in> set ys. \<exists>n f. y = [(n, f)]"
    by fastforce
  with x show ?case by simp
qed

lemma eval_masked_series:
  assumes entries: "\<And>x. x \<in> set xs \<Longrightarrow> \<exists>n f. eval_img P a x = Inr [(n, f)]"
    and mask: "images P ''users/leobeckerdaluz/FIXED/soybeanMask_mesoregionRS'' = Some [(k, m)]"
  shows "\<exists>cv. eval_coll P a (masked (FromList xs)) = Inr cv \<and> length (cv_elems cv) = length xs"
proof -
  from sequence_all_single [of xs "eval_img P a", OF entries]
  obtain ys where ys: "sequence (map (eval_img P a) xs) = Inr ys" "length ys = length xs"
      "\<forall>y \<in> set ys. \<exists>n f. y = [(n, f)]"
    by blast
  let ?es = "map (\<lambda>r. \<lparr>el_time = 0, el_footprint = [], el_bands = r\<rparr>) ys"
  have inner: "eval_coll P a (FromList xs) = Inr \<lparr>cv_schema = schema_of [] ys, cv_elems = ?es\<rparr>"
    by (simp add: ys(1))
  have "\<exists>n f. eval_img P (Some (el_bands e)) (maskCollections MapArg) = Inr [(n, f)]"
    if "e \<in> set ?es" for e
  proof -
    from that ys(3) obtain n f where "el_bands e = [(n, f)]" by auto
    with mask show ?thesis
      by (simp add: maskCollections_def soybeanMask_def update_mask_def)
  qed
  from sequence_all_single [of ?es "\<lambda>e. eval_img P (Some (el_bands e)) (maskCollections MapArg)", OF this]
  obtain rs where rs: "sequence (map (\<lambda>e. eval_img P (Some (el_bands e)) (maskCollections MapArg)) ?es) = Inr rs"
      "length rs = length ?es"
    by blast
  have "eval_coll P a (masked (FromList xs))
        = Inr \<lparr>cv_schema = schema_of (schema_of [] ys) rs,
               cv_elems = map (\<lambda>(e, r). e\<lparr>el_bands := r\<rparr>) (zip ?es rs)\<rparr>"
    unfolding masked_def eval_coll.simps(5) inner using rs(1) by simp
  moreover have "length (map (\<lambda>(e, r). e\<lparr>el_bands := r\<rparr>) (zip ?es rs)) = length xs"
    using rs(2) ys(2) by simp
  ultimately show ?thesis by simp
qed

text \<open>
  Claim C9. Each of the three accumulated builders is taken on its own: whenever the
  window of a date holds no image of that builder's collection, whatever the other
  collections hold, nothing is raised and the image of that period has the builder's band
  with no data at every pixel, before and after masking. The provider is one whose
  resampling keeps a no-data image. A series has one image per date, whether or not its
  windows hold images.
\<close>

theorem coverage_gap:
  assumes roi: "regions P ''users/leobeckerdaluz/FIXED_shapes/mesoregionRS'' = Some reg"
    and mask: "images P ''users/leobeckerdaluz/FIXED/soybeanMask_mesoregionRS'' = Some [(k, m)]"
    and nodata: "\<And>crs s. resample P crs s (\<lambda>p. None) = (\<lambda>p. None)"
    and date: "parse_date d = Inr t"
    and series: "\<forall>d \<in> set ds. \<exists>t. parse_date d = Inr t"
  shows "(collections P ''MODIS/061/MOD11A2'' = Some cl \<longrightarrow> ''LST_Day_1km'' \<in> set (cv_schema cl) \<longrightarrow>
            (filter_date t (t + 16 * ms_per_day) (filter_bounds reg (cv_elems cl)) = [] \<longrightarrow>
               eval_img P a (collectionLST_image d) = Inr [(''LST'', \<lambda>p. None)]
               \<and> eval_img P a (maskCollections (collectionLST_image d)) = Inr [(''LST'', \<lambda>p. None)])
            \<and> (\<exists>cv. eval_coll P a (masked (collectionLST ds)) = Inr cv
                      \<and> length (cv_elems cv) = length ds))
       \<and> (collections P ''ECMWF/ERA5_LAND/HOURLY'' = Some cs \<longrightarrow>
            ''surface_solar_radiation_downwards_hourly'' \<in> set (cv_schema cs) \<longrightarrow>
            (filter_date t (t + 16 * ms_per_day) (filter_bounds reg (cv_elems cs)) = [] \<longrightarrow>
               eval_img P a (collectionSOL_image d) = Inr [(''SOL'', \<lambda>p. None)]
               \<and> eval_img P a (maskCollections (collectionSOL_image d)) = Inr [(''SOL'', \<lambda>p. None)])
            \<and> (\<exists>cv. eval_coll P a (masked (collectionSOL ds)) = Inr cv
                      \<and> length (cv_elems cv) = length ds))
       \<and> (collections P ''MODIS/006/MOD16A2'' = Some cw \<longrightarrow>
            ''ET'' \<in> set (cv_schema cw) \<longrightarrow> ''PET'' \<in> set (cv_schema cw) \<longrightarrow>
            (filter_bounds reg (filter_date t (t + 16 * ms_per_day) (cv_elems cw)) = [] \<longrightarrow>
               eval_img P a (collectionWe_image d) = Inr [(''We'', \<lambda>p. None)]
               \<and> eval_img P a (maskCollections (collectionWe_image d)) = Inr [(''We'', \<lambda>p. None)])
            \<and> (\<exists>cv. eval_coll P a (masked (collectionWe ds)) = Inr cv
                      \<and> length (cv_elems cv) = length ds))"
proof -
  have lst_gap: "eval_img P a (collectionLST_image d) = Inr [(''LST'', \<lambda>p. None)]
       \<and> eval_img P a (maskCollections (collectionLST_image d)) = Inr [(''LST'', \<lambda>p. None)]"
    if lst: "collections P ''MODIS/061/MOD11A2'' = Some cl" "''LST_Day_1km'' \<in> set (cv_schema cl)"
      and gap: "filter_date t (t + 16 * ms_per_day) (filter_bounds reg (cv_elems cl)) = []"
  proof -
    have l: "eval_img P a (collectionLST_image d) = Inr [(''LST'', \<lambda>p. None)]"
      using eval_LST_image [OF lst roi date, of a]
      by (simp add: gap reduce_empty clip_nodata nodata)
    from eval_mask_single [OF l mask] l show ?thesis by (simp add: mask_nodata)
  qed
  have lst_series: "\<exists>cv. eval_coll P a (masked (collectionLST ds)) = Inr cv
                      \<and> length (cv_elems cv) = length ds"
    if lst: "collections P ''MODIS/061/MOD11A2'' = Some cl" "''LST_Day_1km'' \<in> set (cv_schema cl)"
  proof -
    have "\<exists>n f. eval_img P a x = Inr [(n, f)]" if "x \<in> set (map collectionLST_image ds)" for x
    proof -
      from that series obtain d' t' where "x = collectionLST_image d'" "parse_date d' = Inr t'"
        by auto
      with eval_LST_image [OF lst roi, of d' t' a] show ?thesis by blast
    qed
    from eval_masked_series [of "map collectionLST_image ds" P a, OF this mask]
    show ?thesis by (simp add: collectionLST_def)
  qed
  have sol_gap: "eval_img P a (collectionSOL_image d) = Inr [(''SOL'', \<lambda>p. None)]
       \<and> eval_img P a (maskCollections (collectionSOL_image d)) = Inr [(''SOL'', \<lambda>p. None)]"
    if sol: "collections P ''ECMWF/ERA5_LAND/HOURLY'' = Some cs"
        "''surface_solar_radiation_downwards_hourly'' \<in> set (cv_schema cs)"
      and gap: "filter_date t (t + 16 * ms_per_day) (filter_bounds reg (cv_elems cs)) = []"
  proof -
    have s: "eval_img P a (collectionSOL_image d) = Inr [(''SOL'', \<lambda>p. None)]"
      using eval_SOL_image [OF sol roi date, of a]
      by (simp add: gap reduce_empty clip_nodata nodata)
    from eval_mask_single [OF s mask] s show ?thesis by (simp add: mask_nodata)
  qed
  have sol_series: "\<exists>cv. eval_coll P a (masked (collectionSOL ds)) = Inr cv
                      \<and> length (cv_elems cv) = length ds"
    if sol: "collections P ''ECMWF/ERA5_LAND/HOURLY'' = Some cs"
        "''surface_solar_radiation_downwards_hourly'' \<in> set (cv_schema cs)"
  proof -
    have "\<exists>n f. eval_img P a x = Inr [(n, f)]" if "x \<in> set (map collectionSOL_image ds)" for x
    proof -
      from that series obtain d' t' where "x = collectionSOL_image d'" "parse_date d' = Inr t'"
        by auto
      with eval_SOL_image [OF sol roi, of d' t' a] show ?thesis by blast
    qed
    from eval_masked_series [of "map collectionSOL_image ds" P a, OF this mask]
    show ?thesis by (simp add: collectionSOL_def)
  qed
  have we_gap: "eval_img P a (collectionWe_image d) = Inr [(''We'', \<lambda>p. None)]
       \<and> eval_img P a (maskCollections (collectionWe_image d)) = Inr [(''We'', \<lambda>p. None)]"
    if we: "collections P ''MODIS/006/MOD16A2'' = Some cw"
        "''ET'' \<in> set (cv_schema cw)" "''PET'' \<in> set (cv_schema cw)"
      and gap: "filter_bounds reg (filter_date t (t + 16 * ms_per_day) (cv_elems cw)) = []"
  proof -
    have "eval_img P a (We d) = Inr [(''ET'', \<lambda>p. None)]"
      using eval_We [OF we roi date, of a]
      by (simp add: gap reduce_empty)
    from eval_We_image [OF this roi]
    have w: "eval_img P a (collectionWe_image d) = Inr [(''We'', \<lambda>p. None)]"
      by (simp add: clip_nodata nodata)
    from eval_mask_single [OF w mask] w show ?thesis by (simp add: mask_nodata)
  qed
  have we_series: "\<exists>cv. eval_coll P a (masked (collectionWe ds)) = Inr cv
                      \<and> length (cv_elems cv) = length ds"
    if we: "collections P ''MODIS/006/MOD16A2'' = Some cw"
        "''ET'' \<in> set (cv_schema cw)" "''PET'' \<in> set (cv_schema cw)"
  proof -
    have "\<exists>n f. eval_img P a x = Inr [(n, f)]" if "x \<in> set (map collectionWe_image ds)" for x
    proof -
      from that series obtain d' t' where x: "x = collectionWe_image d'" and "parse_date d' = Inr t'"
        by auto
      from eval_We_image [OF eval_We [OF we roi this(2), of a] roi] x show ?thesis by blast
    qed
    from eval_masked_series [of "map collectionWe_image ds" P a, OF this mask]
    show ?thesis by (simp add: collectionWe_def)
  qed
  from lst_gap lst_series sol_gap sol_series we_gap we_series show ?thesis by blast
qed

lemma parse_2018_01_03: "parse_date ''2018-01-03'' = Inr (day 2)"
  by code_simp

lemma parse_2019_01_01: "parse_date ''2019-01-01'' = Inr (day 365)"
  by code_simp

theorem coverage_gap_witness:
  "eval_img demo_provider None (collectionSOL_image ''2018-01-03'') = Inr [(''SOL'', \<lambda>p. None)]
   \<and> eval_img demo_provider None (maskCollections (collectionSOL_image ''2018-01-03''))
       = Inr [(''SOL'', \<lambda>p. None)]
   \<and> pixel_value (eval_img demo_provider None (collectionLST_image ''2018-01-03'')) ''LST'' (0, 0)
       = Some (- 265.05)
   \<and> eval_img demo_provider None (collectionLST_image ''2019-01-01'') = Inr [(''LST'', \<lambda>p. None)]
   \<and> eval_img demo_provider None (maskCollections (collectionWe_image ''2019-01-01''))
       = Inr [(''We'', \<lambda>p. None)]
   \<and> map_sum id (length \<circ> cv_elems)
        (eval_coll demo_provider None (masked (collectionSOL [''2018-01-01'', ''2018-01-03''])))
       = Inr 2"
proof -
  have sol: "collections demo_provider ''ECMWF/ERA5_LAND/HOURLY'' = Some demo_SOL"
    by (simp add: demo_provider_def demo_collections_def)
  have lst_band: "''LST_Day_1km'' \<in> set (cv_schema demo_LST)"
    by (simp add: demo_LST_def)
  have sol_band: "''surface_solar_radiation_downwards_hourly'' \<in> set (cv_schema demo_SOL)"
    by (simp add: demo_SOL_def)
  have mask: "images demo_provider ''users/leobeckerdaluz/FIXED/soybeanMask_mesoregionRS''
                = Some [(''b1'', band_of [((0, 0), 1), ((0, 1), 0)])]"
    by (simp add: demo_provider_def demo_mask_def)
  have nodata: "\<And>crs s. resample demo_provider crs s (\<lambda>p. None) = (\<lambda>p. None)"
    by (simp add: demo_provider_def)
  have inside: "(0, 0) \<in> set demo_region"
    by (simp add: demo_region_def)
  have gap_sol: "filter_date (day 2) (day 2 + 16 * ms_per_day)
                   (filter_bounds demo_region (cv_elems demo_SOL)) = []"
    by (auto simp: filter_date_def filter_bounds_def demo_SOL_def demo_region_def day_def ms_per_day_def)
  have lst_mean: "reduce_values Mean (values_at ''LST_Day_1km'' (0, 0)
                (filter_date (day 2) (day 2 + 16 * ms_per_day)
                   (filter_bounds demo_region (cv_elems demo_LST)))) = Some 405"
    by (auto simp: reduce_values_def values_at_def filter_date_def filter_bounds_def
        demo_region_def demo_LST_def day_def ms_per_day_def band_of_def)
  have gap_lst: "filter_date (day 365) (day 365 + 16 * ms_per_day)
                   (filter_bounds demo_region (cv_elems demo_LST)) = []"
    by (auto simp: filter_date_def filter_bounds_def demo_LST_def demo_region_def day_def ms_per_day_def)
  have gap_we: "filter_bounds demo_region
                  (filter_date (day 365) (day 365 + 16 * ms_per_day) (cv_elems demo_MOD16)) = []"
    by (auto simp: filter_date_def filter_bounds_def demo_MOD16_def demo_region_def day_def ms_per_day_def)
  have series: "\<forall>d \<in> set [''2018-01-01'', ''2018-01-03'']. \<exists>t. parse_date d = Inr t"
    using parse_2018_01_01 parse_2018_01_03 by simp
  note jan = coverage_gap [OF demo_roi mask nodata parse_2018_01_03 series,
      where a = None and cs = demo_SOL]
  note far = coverage_gap [OF demo_roi mask nodata parse_2019_01_01 series,
      where a = None and cl = demo_LST and cw = demo_MOD16]
  from jan sol sol_band gap_sol
  have s: "eval_img demo_provider None (collectionSOL_image ''2018-01-03'') = Inr [(''SOL'', \<lambda>p. None)]"
    and ms: "eval_img demo_provider None (maskCollections (collectionSOL_image ''2018-01-03''))
               = Inr [(''SOL'', \<lambda>p. None)]"
    by blast+
  from jan sol sol_band obtain cv where
    "eval_coll demo_provider None (masked (collectionSOL [''2018-01-01'', ''2018-01-03''])) = Inr cv"
    "length (cv_elems cv) = length [''2018-01-01'', ''2018-01-03'']"
    by blast
  then have n: "map_sum id (length \<circ> cv_elems)
        (eval_coll demo_provider None (masked (collectionSOL [''2018-01-01'', ''2018-01-03''])))
       = Inr 2"
    by simp
  from far demo_LST_catalogue lst_band gap_lst
  have l: "eval_img demo_provider None (collectionLST_image ''2019-01-01'') = Inr [(''LST'', \<lambda>p. None)]"
    by blast
  from far demo_MOD16_catalogue demo_MOD16_bands gap_we
  have w: "eval_img demo_provider None (maskCollections (collectionWe_image ''2019-01-01''))
             = Inr [(''We'', \<lambda>p. None)]"
    by blast
  from eval_LST_image [OF demo_LST_catalogue lst_band demo_roi parse_2018_01_03, of None]
    inside lst_mean
  have v: "pixel_value (eval_img demo_provider None (collectionLST_image ''2018-01-03'')) ''LST'' (0, 0)
             = Some (- 265.05)"
    by (simp add: pixel_value_def demo_provider_def clip_band_def)
  from s ms v l w n show ?thesis by blast
qed

end
